theory Spec2Isabelle
  imports Main "HOL-Library.Word" "HOL-Library.Signed_Division"
begin

section \<open>Data model\<close>

text \<open>
  The kernel targets 32-bit x86 (\<^verbatim>\<open>eax\<close>, \<^verbatim>\<open>esp\<close>, \<^verbatim>\<open>iretd\<close> in
  \<^verbatim>\<open>kernel/arch/x86/src/context.s\<close>): registers, stack slots, \<^verbatim>\<open>size_t\<close> and
  \<^verbatim>\<open>int\<close> are 32-bit words. A pointer to a process descriptor is an address;
  a nullable pointer is an \<open>addr option\<close>, with \<open>None\<close> for \<^verbatim>\<open>NULL\<close>.
\<close>

type_synonym u32 = "32 word"
type_synonym addr = nat

text \<open>
  \<^verbatim>\<open>regs_t\<close>, \<^verbatim>\<open>process_t\<close> and \<^verbatim>\<open>sys_ret_t\<close> are declared in
  \<^verbatim>\<open>syscall/syscall.h\<close>, which is not among the sources. The code reads the field
  \<^verbatim>\<open>eax\<close> of a frame and writes the fields \<^verbatim>\<open>regs_state\<close> and
  \<^verbatim>\<open>syscalling\<close> of a descriptor; every other field is kept as a type parameter.
  \<^verbatim>\<open>sys_ret_t\<close> is taken as a 32-bit word, in which \<^verbatim>\<open>-1\<close> is \<open>0xFFFFFFFF\<close>.
\<close>

type_synonym sys_ret_t = "32 word"

record 'r regs_t =
  eax :: u32
  regs_other :: 'r

record ('r, 'p) process_t =
  regs_state :: "'r regs_t"
  syscalling :: bool
  process_other :: 'p

text \<open>
  The kernel state the code touches: the process descriptors by address, the descriptor
  of the process that is executing (what \<^verbatim>\<open>get_running_process()\<close> returns), and the
  interrupt-enable flag of the core.
\<close>

record ('r, 'p) kernel =
  procs :: "addr \<Rightarrow> ('r, 'p) process_t"
  running :: "addr option"
  interrupts :: bool

text \<open>
  A C call returns a value, hits undefined behaviour (a store through \<^verbatim>\<open>NULL\<close>), or
  does not come back (\<^verbatim>\<open>sys_exit\<close>).
\<close>

datatype fault = NullPointer

datatype 'a outcome = Returned 'a | Fault fault | NoReturn

text \<open>
  A syscall handler, \<^verbatim>\<open>sys_ret_t (*sys_handler_t)(process_t *, const regs_t *)\<close>.
  The handlers are outside the sources: any function of the descriptor's address, the
  frame and the kernel state. A table slot is a nullable function pointer.
\<close>

type_synonym ('r, 'p) sys_handler_t =
  "addr \<Rightarrow> 'r regs_t \<Rightarrow> ('r, 'p) kernel \<Rightarrow> (sys_ret_t \<times> ('r, 'p) kernel) outcome"

text \<open>
  The effects of \<^verbatim>\<open>syscall_handler\<close>, in the order in which it performs them.
  \<open>EvInvoke\<close> records a call through the table: the index, the two arguments and the
  kernel state at the call.
\<close>

datatype ('r, 'p) event =
    EvGetRunning
  | EvStoreRegs addr
  | EvSyscalling addr bool
  | EvSTI
  | EvInvoke nat addr "'r regs_t" "('r, 'p) kernel"

section \<open>Interrupt masking and the spinlock (\<^verbatim>\<open>src/util/lock.c\<close>)\<close>

text \<open>
  Modelled from the spec: the macros \<^verbatim>\<open>CLI()\<close> and \<^verbatim>\<open>STI()\<close> of
  \<^verbatim>\<open>idt/idt.h\<close>, which is not among the sources. By the spec, acquiring the lock
  "masks interrupts on the current core" and releasing it "unmasks them", and the
  dispatcher's \<^verbatim>\<open>STI()\<close> "re-enables interrupts": the x86 instructions of the same
  names, which clear and set the interrupt-enable flag.
\<close>

definition CLI :: "('r, 'p) kernel \<Rightarrow> ('r, 'p) kernel" where
  "CLI s = s\<lparr>interrupts := False\<rparr>"

definition STI :: "('r, 'p) kernel \<Rightarrow> ('r, 'p) kernel" where
  "STI s = s\<lparr>interrupts := True\<rparr>"

text \<open>
  \<^verbatim>\<open>void lock(spinlock_t *spinlock) { CLI(); (void) spinlock; }\<close> and
  \<^verbatim>\<open>void unlock(spinlock_t *spinlock) { (void) spinlock; STI(); }\<close>: the lock
  itself is never read or written.
\<close>

definition lock :: "addr \<Rightarrow> ('r, 'p) kernel \<Rightarrow> ('r, 'p) kernel" where
  "lock spinlock s = CLI s"

definition unlock :: "addr \<Rightarrow> ('r, 'p) kernel \<Rightarrow> ('r, 'p) kernel" where
  "unlock spinlock s = STI s"

section \<open>The syscall dispatcher (\<^verbatim>\<open>src/syscall/handler.c\<close>)\<close>

text \<open>
  The five handlers named in the table are external functions; they are the fields of
  one parameter. The name of a function is never a null pointer.
\<close>

record ('r, 'p) sys_impl =
  sys_write :: "('r, 'p) sys_handler_t"
  sys_fork :: "('r, 'p) sys_handler_t"
  sys_exit :: "('r, 'p) sys_handler_t"
  sys_getpid :: "('r, 'p) sys_handler_t"
  sys_waitpid :: "('r, 'p) sys_handler_t"

definition sys_handlers :: "('r, 'p) sys_impl \<Rightarrow> ('r, 'p) sys_handler_t option list" where
  "sys_handlers impl =
     [Some (sys_write impl),
      Some (sys_fork impl),
      Some (sys_exit impl),
      Some (sys_getpid impl),
      Some (sys_waitpid impl)]"

text \<open>\<^verbatim>\<open>sizeof(sys_handlers) / sizeof( *sys_handlers)\<close>: the number of slots.\<close>

definition SYSCALLS_COUNT :: "('r, 'p) sys_handler_t option list \<Rightarrow> nat" where
  "SYSCALLS_COUNT tbl = length tbl"

definition get_running_process :: "('r, 'p) kernel \<Rightarrow> addr option" where
  "get_running_process s = running s"

text \<open>\<^verbatim>\<open>process->regs_state = *registers\<close> and \<^verbatim>\<open>process->syscalling = b\<close>.\<close>

definition store_regs_state ::
    "addr \<Rightarrow> 'r regs_t \<Rightarrow> ('r, 'p) kernel \<Rightarrow> ('r, 'p) kernel" where
  "store_regs_state process registers s =
     s\<lparr>procs := (procs s)(process := (procs s process)\<lparr>regs_state := registers\<rparr>)\<rparr>"

definition store_syscalling ::
    "addr \<Rightarrow> bool \<Rightarrow> ('r, 'p) kernel \<Rightarrow> ('r, 'p) kernel" where
  "store_syscalling process b s =
     s\<lparr>procs := (procs s)(process := (procs s process)\<lparr>syscalling := b\<rparr>)\<rparr>"

text \<open>
  The lookup of line 23, \<^verbatim>\<open>id >= SYSCALLS_COUNT || !(h = sys_handlers[id])\<close>: the
  table is read only when the index is in range, and \<open>None\<close> stands for both ways of
  failing.
\<close>

definition lookup_handler ::
    "('r, 'p) sys_handler_t option list \<Rightarrow> nat \<Rightarrow> ('r, 'p) sys_handler_t option" where
  "lookup_handler tbl id' = (if SYSCALLS_COUNT tbl \<le> id' then None else tbl ! id')"

text \<open>
  \<^verbatim>\<open>syscall_handler\<close>, with the table as a parameter (\<open>id'\<close> is the local
  \<^verbatim>\<open>id\<close>). The frame is passed by value
  (\<^verbatim>\<open>const regs_t *\<close>: the function has no store through it). The result is the list
  of effects performed and the outcome: the returned value with the kernel state at the
  return, a fault, or no return.
\<close>

definition syscall_handler ::
    "('r, 'p) sys_handler_t option list \<Rightarrow> 'r regs_t \<Rightarrow> ('r, 'p) kernel
       \<Rightarrow> ('r, 'p) event list \<times> (sys_ret_t \<times> ('r, 'p) kernel) outcome" where
  "syscall_handler tbl registers s =
     (let id' = unat (eax registers) in
      case lookup_handler tbl id' of
        None \<Rightarrow> ([], Returned (- 1, s))
      | Some h \<Rightarrow>
          (case get_running_process s of
             None \<Rightarrow> ([EvGetRunning], Fault NullPointer)
           | Some process \<Rightarrow>
               (let s1 = store_regs_state process registers s;
                    s2 = store_syscalling process True s1;
                    s3 = STI s2;
                    entered = [EvGetRunning, EvStoreRegs process,
                               EvSyscalling process True, EvSTI,
                               EvInvoke id' process registers s3]
                in case h process registers s3 of
                     Returned (ret, s4) \<Rightarrow>
                       (entered @ [EvSyscalling process False],
                        Returned (ret, store_syscalling process False s4))
                   | Fault f \<Rightarrow> (entered, Fault f)
                   | NoReturn \<Rightarrow> (entered, NoReturn))))"

section \<open>The trap entry stubs (\<^verbatim>\<open>kernel/arch/x86/src/context.s\<close>)\<close>

text \<open>
  The kernel stack is a list of 32-bit words, the top of the stack first. When a stub
  starts, the stack holds what the CPU pushed for the trap. \<^verbatim>\<open>push\<close> puts one word
  on top.
\<close>

definition push :: "u32 \<Rightarrow> u32 list \<Rightarrow> u32 list" where
  "push w st = w # st"

text \<open>
  Modelled from the spec: the macro \<^verbatim>\<open>STORE_REGS\<close> of \<^verbatim>\<open>arch/x86/src/regs.s\<close>,
  which is not among the sources. By the spec the stub must "push all general-purpose
  registers in one fixed, documented order": the macro puts the register values
  \<open>saved\<close> (the last one pushed first) on top of the stack.
\<close>

definition STORE_REGS :: "u32 list \<Rightarrow> u32 list \<Rightarrow> u32 list" where
  "STORE_REGS saved st = saved @ st"

text \<open>
  The three macros with their argument, and the stub \<^verbatim>\<open>syscall\<close>. Each stub ends
  its entry half with \<^verbatim>\<open>push esp\<close> and a \<^verbatim>\<open>call\<close>: it passes the address of
  the top of the stack, the frame, to one of two C functions.
\<close>

datatype stub = ERROR nat | ERROR_CODE nat | IRQ nat | SYSCALL

datatype target = Call_interrupt_handler | Call_syscall_handler

text \<open>
  The entry half of each stub, from its label to the \<^verbatim>\<open>call\<close>: the function called
  and the stack its argument points to. (\<^verbatim>\<open>cld\<close> and \<^verbatim>\<open>xor ebp, ebp\<close> touch
  no stack word.)
\<close>

fun stub_entry :: "u32 list \<Rightarrow> stub \<Rightarrow> u32 list \<Rightarrow> target \<times> u32 list" where
  "stub_entry saved (ERROR id') st =
     (Call_interrupt_handler, STORE_REGS saved (push (of_nat id') (push 0 st)))"
| "stub_entry saved (ERROR_CODE id') st =
     (Call_interrupt_handler, STORE_REGS saved (push (of_nat id') st))"
| "stub_entry saved (IRQ id') st =
     (Call_interrupt_handler, STORE_REGS saved (push (0x20 + of_nat id') (push 0 st)))"
| "stub_entry saved SYSCALL st =
     (Call_syscall_handler, STORE_REGS saved (push 0 (push 0 st)))"

text \<open>The macro calls of lines 82 to 113, which define \<^verbatim>\<open>error0\<close> to \<^verbatim>\<open>error31\<close>.\<close>

definition error_stubs :: "stub list" where
  "error_stubs =
     [ERROR 0, ERROR 1, ERROR 2, ERROR 3,
      ERROR 4, ERROR 5, ERROR 6, ERROR 7,
      ERROR_CODE 8, ERROR 9, ERROR_CODE 10, ERROR_CODE 11,
      ERROR_CODE 12, ERROR_CODE 13, ERROR_CODE 14, ERROR 15,
      ERROR 16, ERROR_CODE 17, ERROR 18, ERROR 19,
      ERROR 20, ERROR 21, ERROR 22, ERROR 23,
      ERROR 24, ERROR 25, ERROR 26, ERROR 27,
      ERROR 28, ERROR 29, ERROR_CODE 30, ERROR 31]"

text \<open>The macro calls of lines 115 to 130, which define \<^verbatim>\<open>irq0\<close> to \<^verbatim>\<open>irq15\<close>.\<close>

definition irq_stubs :: "stub list" where
  "irq_stubs =
     [IRQ 0, IRQ 1, IRQ 2, IRQ 3,
      IRQ 4, IRQ 5, IRQ 6, IRQ 7,
      IRQ 8, IRQ 9, IRQ 10, IRQ 11,
      IRQ 12, IRQ 13, IRQ 14, IRQ 15]"

text \<open>
  The frame a stub hands over, read from the stack: the \<open>n\<close> words of
  \<^verbatim>\<open>STORE_REGS\<close>, then the word pushed as the interrupt ID (the vector), then the
  error-code word, then the words the CPU pushed. A stack too short to hold the two
  words is no frame.
\<close>

record frame =
  frame_regs :: "u32 list"
  frame_int :: u32
  frame_code :: u32
  frame_cpu :: "u32 list"

definition frame_at :: "nat \<Rightarrow> u32 list \<Rightarrow> frame option" where
  "frame_at n st =
     (if length st < n + 2 then None
      else Some \<lparr>frame_regs = take n st, frame_int = st ! n,
                 frame_code = st ! (n + 1), frame_cpu = drop (n + 2) st\<rparr>)"

text \<open>
  The exception vectors for which the specification expects a genuine hardware error
  code; the stubs of \<open>error_stubs\<close> are compared with it below.
\<close>

definition hw_code_vectors :: "nat set" where
  "hw_code_vectors = {8, 10, 11, 12, 13, 14, 17, 30}"

section \<open>The test process (\<^verbatim>\<open>src/test_process.c\<close>)\<close>

text \<open>
  \<^verbatim>\<open>int\<close> is a 32-bit word read in two's complement. Division and remainder
  truncate towards zero.
\<close>

definition int_div :: "32 word \<Rightarrow> 32 word \<Rightarrow> 32 word" where
  "int_div a b = word_of_int (sint a sdiv sint b)"

definition int_rem :: "32 word \<Rightarrow> 32 word \<Rightarrow> 32 word" where
  "int_rem a b = word_of_int (sint a smod sint b)"

text \<open>
  \<^verbatim>\<open>print_nbr\<close> negates its argument in three expressions: \<^verbatim>\<open>-nbr >= 10\<close>
  (line 28), \<^verbatim>\<open>-nbr / 10\<close> (line 29) and \<^verbatim>\<open>-nbr % 10\<close> (line 36). The negation
  overflows when \<^verbatim>\<open>nbr\<close> is \<^verbatim>\<open>INT_MIN\<close>, and only then; C leaves the behaviour
  undefined there, so the source alone does not say what the program does.
\<close>

definition neg_overflows :: "32 word \<Rightarrow> bool" where
  "neg_overflows nbr \<longleftrightarrow> sint nbr = - 2147483648"

text \<open>
  Compiled code evaluates an expression with an overflowing negation in one of two
  ways: with the wrapped value, which the \<^verbatim>\<open>neg\<close> instruction gives (\<^verbatim>\<open>INT_MIN\<close>
  again), or with the exact value \<open>2\<^sup>3\<^sup>1\<close>, as when the compiler rewrites
  \<^verbatim>\<open>-nbr >= 10\<close> to \<^verbatim>\<open>nbr <= -10\<close> and \<^verbatim>\<open>-nbr / 10\<close> to \<^verbatim>\<open>nbr / -10\<close>.
  A build fixes one of the two for each of the three expressions; the model takes the
  build as a parameter and covers these eight builds and no other behaviour.
  \<open>negated\<close> is the value of \<^verbatim>\<open>-nbr\<close> as an integer under one choice; the two
  choices differ at \<^verbatim>\<open>INT_MIN\<close> only.
\<close>

datatype negation = Exact | Wrapped

record build =
  test_negation :: negation
  div_negation :: negation
  rem_negation :: negation

definition negated :: "negation \<Rightarrow> 32 word \<Rightarrow> int" where
  "negated m nbr = (case m of Exact \<Rightarrow> - sint nbr | Wrapped \<Rightarrow> sint (- nbr))"

text \<open>The three expressions: \<^verbatim>\<open>-nbr >= 10\<close>, \<^verbatim>\<open>-nbr / 10\<close> and \<^verbatim>\<open>-nbr % 10\<close>.\<close>

definition neg_ge10 :: "build \<Rightarrow> 32 word \<Rightarrow> bool" where
  "neg_ge10 b nbr \<longleftrightarrow> 10 \<le> negated (test_negation b) nbr"

definition neg_div10 :: "build \<Rightarrow> 32 word \<Rightarrow> 32 word" where
  "neg_div10 b nbr = word_of_int (negated (div_negation b) nbr sdiv 10)"

definition neg_rem10 :: "build \<Rightarrow> 32 word \<Rightarrow> 32 word" where
  "neg_rem10 b nbr = word_of_int (negated (rem_negation b) nbr smod 10)"

text \<open>The size of a number and the count of its decimal digits.\<close>

definition magnitude :: "32 word \<Rightarrow> nat" where
  "magnitude nbr = nat \<bar>sint nbr\<bar>"

fun decimal_digits :: "nat \<Rightarrow> nat" where
  "decimal_digits n = (if n < 10 then 1 else Suc (decimal_digits (n div 10)))"

text \<open>
  The character \<^verbatim>\<open>print_nbr\<close> writes last: \<^verbatim>\<open>'0' + (nbr % 10)\<close> or
  \<^verbatim>\<open>'0' + (-nbr % 10)\<close>, computed in \<^verbatim>\<open>int\<close> and stored in a \<^verbatim>\<open>char\<close>.
\<close>

definition last_char :: "build \<Rightarrow> 32 word \<Rightarrow> 8 word" where
  "last_char b nbr =
     (if 0 \<le>s nbr then ucast (0x30 + int_rem nbr 10)
      else ucast (0x30 + neg_rem10 b nbr))"

text \<open>
  \<^verbatim>\<open>print_nbr\<close>: the bytes it passes to \<^verbatim>\<open>write(1, ...)\<close>, in order
  (\<open>0x2D\<close> is \<^verbatim>\<open>'-'\<close>). \<open>print_nbr_fuel\<close> is the same function run on a stack that
  holds at most \<open>fuel\<close> nested calls: \<open>None\<close> when a call would need one more.
\<close>

fun print_nbr_fuel :: "build \<Rightarrow> nat \<Rightarrow> 32 word \<Rightarrow> 8 word list option" where
  "print_nbr_fuel b 0 nbr = None"
| "print_nbr_fuel b (Suc fuel) nbr =
     (case (if 10 \<le>s nbr then print_nbr_fuel b fuel (int_div nbr 10) else Some []) of
        None \<Rightarrow> None
      | Some x \<Rightarrow>
          (case (if neg_ge10 b nbr then print_nbr_fuel b fuel (neg_div10 b nbr) else Some []) of
             None \<Rightarrow> None
           | Some y \<Rightarrow>
               Some ((if nbr <s 0 then [0x2D] else []) @ x @ y @ [last_char b nbr])))"

text \<open>
  \<^verbatim>\<open>print_nbr\<close> itself. The recursion is not structural: each call is on
  \<^verbatim>\<open>nbr / 10\<close> or \<^verbatim>\<open>-nbr / 10\<close>, and \<open>magnitude\<close> is the measure that
  decreases, in every build.
\<close>

function print_nbr :: "build \<Rightarrow> 32 word \<Rightarrow> 8 word list" where
  "print_nbr b nbr =
     (if nbr <s 0 then [0x2D] else []) @
     (if 10 \<le>s nbr then print_nbr b (int_div nbr 10) else []) @
     (if neg_ge10 b nbr then print_nbr b (neg_div10 b nbr) else []) @
     [last_char b nbr]"
  by pat_completeness auto
termination
proof (relation "measure (\<lambda>(b, nbr). magnitude nbr)")
  have range: "- 2147483648 \<le> sint w \<and> sint w < 2147483648" for w :: "32 word"
    using sint_ge [of w] sint_lt [of w] by simp
  have neg: "sint (- w) = (if sint w = - 2147483648 then - 2147483648 else - sint w)"
    for w :: "32 word"
  proof -
    have "- w = (word_of_int (- sint w) :: 32 word)"
      by simp
    then have "sint (- w) = (- sint w + 2147483648) mod 4294967296 - 2147483648"
      by (simp only: int_word_sint) simp
    then show ?thesis
      using range [of w] by auto
  qed
  have tenth: "magnitude (word_of_int (a sdiv 10)) < nat \<bar>a\<bar>"
    if "10 \<le> \<bar>a\<bar>" "\<bar>a\<bar> \<le> 2147483648" for a :: int
  proof -
    have "\<bar>a sdiv 10\<bar> = \<bar>a\<bar> div 10"
      by (simp add: signed_divide_int_def sgn_if abs_mult)
    moreover have "\<bar>a\<bar> div 10 < 2147483648"
      using that by simp
    ultimately have "sint (word_of_int (a sdiv 10) :: 32 word) = a sdiv 10"
      by (simp add: int_word_sint)
    moreover have "x div 10 < x" if "10 \<le> x" for x :: int
      using that by arith
    ultimately show ?thesis
      using that \<open>\<bar>a sdiv 10\<bar> = \<bar>a\<bar> div 10\<close> by (auto simp: magnitude_def)
  qed
  have same: "\<bar>negated m w\<bar> = \<bar>sint w\<bar>" for m w
    by (cases m) (simp_all add: negated_def neg)
  show "wf (measure (\<lambda>(b, nbr). magnitude nbr))"
    by simp
  have bound: "\<bar>sint w\<bar> \<le> 2147483648" for w :: "32 word"
    using range [of w] by linarith
  show "((b, int_div nbr 10), (b, nbr)) \<in> measure (\<lambda>(b, nbr). magnitude nbr)"
    if "10 \<le>s nbr" for b nbr
  proof -
    have "10 \<le> \<bar>sint nbr\<bar>"
      using that by (simp add: word_sle_eq)
    then have "magnitude (word_of_int (sint nbr sdiv 10)) < nat \<bar>sint nbr\<bar>"
      using tenth [of "sint nbr"] bound [of nbr] by blast
    then show ?thesis
      by (simp add: int_div_def magnitude_def)
  qed
  show "((b, neg_div10 b nbr), (b, nbr)) \<in> measure (\<lambda>(b, nbr). magnitude nbr)"
    if "neg_ge10 b nbr" for b nbr
  proof -
    have "10 \<le> \<bar>negated (test_negation b) nbr\<bar>"
      using that by (simp add: neg_ge10_def)
    then have "10 \<le> \<bar>negated (div_negation b) nbr\<bar>"
      by (simp add: same)
    moreover have "\<bar>negated (div_negation b) nbr\<bar> \<le> 2147483648"
      using bound [of nbr] by (simp add: same)
    ultimately have "magnitude (word_of_int (negated (div_negation b) nbr sdiv 10))
        < nat \<bar>negated (div_negation b) nbr\<bar>"
      using tenth [of "negated (div_negation b) nbr"] by blast
    then show ?thesis
      by (simp add: neg_div10_def magnitude_def same)
  qed
qed

declare print_nbr.simps [simp del]
declare decimal_digits.simps [simp del]

text \<open>
  Two of the builds: every negation wrapped; and the test and the quotient exact with
  the remainder wrapped.
\<close>

definition wrapping_build :: build where
  "wrapping_build =
     \<lparr>test_negation = Wrapped, div_negation = Wrapped, rem_negation = Wrapped\<rparr>"

definition folding_build :: build where
  "folding_build = \<lparr>test_negation = Exact, div_negation = Exact, rem_negation = Wrapped\<rparr>"

section \<open>Sample inputs\<close>

text \<open>
  A frame with a given \<^verbatim>\<open>eax\<close>, a kernel in which the process at address 1 runs
  outside any syscall with interrupts masked, and a handler that returns the address
  of the caller's descriptor and changes nothing.
\<close>

definition sample_regs :: "u32 \<Rightarrow> unit regs_t" where
  "sample_regs n = \<lparr>eax = n, regs_other = ()\<rparr>"

definition sample_process :: "(unit, unit) process_t" where
  "sample_process = \<lparr>regs_state = sample_regs 0, syscalling = False, process_other = ()\<rparr>"

definition sample_kernel :: "(unit, unit) kernel" where
  "sample_kernel = \<lparr>procs = (\<lambda>a. sample_process), running = Some 1, interrupts = False\<rparr>"

definition sample_getpid :: "(unit, unit) sys_handler_t" where
  "sample_getpid process registers s = Returned (of_nat process, s)"

definition sample_exit :: "(unit, unit) sys_handler_t" where
  "sample_exit process registers s = NoReturn"

definition sample_impl :: "(unit, unit) sys_impl" where
  "sample_impl =
     \<lparr>sys_write = sample_getpid, sys_fork = sample_getpid, sys_exit = sample_exit,
      sys_getpid = sample_getpid, sys_waitpid = sample_getpid\<rparr>"


section \<open>The syscall dispatcher: lookup failures\<close>

lemma syscall_handler_None:
  assumes "lookup_handler tbl (unat (eax registers)) = None"
  shows "syscall_handler tbl registers s = ([], Returned (- 1, s))"
  using assms by (simp add: syscall_handler_def Let_def)

lemma syscall_handler_null:
  assumes "lookup_handler tbl (unat (eax registers)) = Some h"
    and "get_running_process s = None"
  shows "syscall_handler tbl registers s = ([EvGetRunning], Fault NullPointer)"
  using assms by (simp add: syscall_handler_def Let_def)

text \<open>
  With a handler found and a running process, the three outcomes of the handler give
  the three outcomes of the dispatcher.
\<close>

lemma syscall_handler_Some:
  assumes "lookup_handler tbl (unat (eax registers)) = Some h"
    and "get_running_process s = Some process"
  shows "syscall_handler tbl registers s =
     (case h process registers
             (STI (store_syscalling process True (store_regs_state process registers s))) of
        Returned (ret, s4) \<Rightarrow>
          ([EvGetRunning, EvStoreRegs process, EvSyscalling process True, EvSTI,
            EvInvoke (unat (eax registers)) process registers
              (STI (store_syscalling process True (store_regs_state process registers s))),
            EvSyscalling process False],
           Returned (ret, store_syscalling process False s4))
      | Fault f \<Rightarrow>
          ([EvGetRunning, EvStoreRegs process, EvSyscalling process True, EvSTI,
            EvInvoke (unat (eax registers)) process registers
              (STI (store_syscalling process True (store_regs_state process registers s)))],
           Fault f)
      | NoReturn \<Rightarrow>
          ([EvGetRunning, EvStoreRegs process, EvSyscalling process True, EvSTI,
            EvInvoke (unat (eax registers)) process registers
              (STI (store_syscalling process True (store_regs_state process registers s)))],
           NoReturn))"
  using assms by (simp add: syscall_handler_def Let_def split: outcome.splits)

lemma syscall_handler_trace_Nil:
  "fst (syscall_handler tbl registers s) = [] \<longleftrightarrow>
     lookup_handler tbl (unat (eax registers)) = None"
  by (auto simp: syscall_handler_def Let_def split: option.splits outcome.splits)

text \<open>
  C1. When the number in \<^verbatim>\<open>eax\<close> is out of the table's range, or the slot it
  selects is a null handler, \<^verbatim>\<open>syscall_handler\<close> returns \<^verbatim>\<open>-1\<close>. It performs no
  effect at all: no handler is invoked, the call returns to its caller, and the kernel
  state at the return is the state at the entry, so \<^verbatim>\<open>regs_state\<close> and
  \<^verbatim>\<open>syscalling\<close> of every process and the interrupt flag are unchanged. The frame
  is an input only; the value returned is all that reaches the return-value slot.
\<close>

theorem syscall_handler_invalid:
  assumes "SYSCALLS_COUNT tbl \<le> unat (eax registers) \<or> tbl ! unat (eax registers) = None"
  shows "syscall_handler tbl registers s = ([], Returned (- 1, s))"
  using assms by (auto simp: syscall_handler_def lookup_handler_def Let_def)

theorem syscall_handler_invalid_witness:
  "syscall_handler [Some sample_getpid, None] (sample_regs 7) sample_kernel =
     ([], Returned (- 1, sample_kernel))
   \<and> syscall_handler [Some sample_getpid, None] (sample_regs 1) sample_kernel =
     ([], Returned (- 1, sample_kernel))"
  using syscall_handler_invalid [of "[Some sample_getpid, None]" "sample_regs 7" sample_kernel]
    syscall_handler_invalid [of "[Some sample_getpid, None]" "sample_regs 1" sample_kernel]
  by (simp add: SYSCALLS_COUNT_def sample_regs_def)

section \<open>The syscall dispatcher: a valid number\<close>

text \<open>
  C2. When the number in \<^verbatim>\<open>eax\<close> is in range, its slot holds a handler and a
  process is running, the effects of \<^verbatim>\<open>syscall_handler\<close> start with: resolving
  the running process, storing the frame in its \<^verbatim>\<open>regs_state\<close>, setting its
  \<^verbatim>\<open>syscalling\<close>, enabling interrupts, and invoking the handler of that slot on the
  process and the frame, in the state that differs from the entry state in exactly
  these three stores. When the handler returns, one more effect follows, clearing
  \<^verbatim>\<open>syscalling\<close> of the same descriptor in the state the handler left, and the
  handler's result is returned.
\<close>

theorem syscall_handler_valid:
  assumes "unat (eax registers) < SYSCALLS_COUNT tbl"
    and "tbl ! unat (eax registers) = Some h"
    and "get_running_process s = Some process"
  shows "take 5 (fst (syscall_handler tbl registers s)) =
           [EvGetRunning, EvStoreRegs process, EvSyscalling process True, EvSTI,
            EvInvoke (unat (eax registers)) process registers
              (s\<lparr>procs := (procs s)(process := (procs s process)
                    \<lparr>regs_state := registers, syscalling := True\<rparr>),
                 interrupts := True\<rparr>)]
         \<and> (\<forall>ret s'.
              h process registers
                (s\<lparr>procs := (procs s)(process := (procs s process)
                      \<lparr>regs_state := registers, syscalling := True\<rparr>),
                   interrupts := True\<rparr>) = Returned (ret, s') \<longrightarrow>
              syscall_handler tbl registers s =
                ([EvGetRunning, EvStoreRegs process, EvSyscalling process True, EvSTI,
                  EvInvoke (unat (eax registers)) process registers
                    (s\<lparr>procs := (procs s)(process := (procs s process)
                          \<lparr>regs_state := registers, syscalling := True\<rparr>),
                       interrupts := True\<rparr>),
                  EvSyscalling process False],
                 Returned (ret, s'\<lparr>procs := (procs s')(process := (procs s' process)
                                      \<lparr>syscalling := False\<rparr>)\<rparr>)))"
  using assms
  by (auto simp: syscall_handler_def lookup_handler_def store_regs_state_def
      store_syscalling_def STI_def Let_def split: outcome.splits)

theorem syscall_handler_valid_witness:
  "unat (eax (sample_regs 3)) < SYSCALLS_COUNT (sys_handlers sample_impl)
   \<and> sys_handlers sample_impl ! unat (eax (sample_regs 3)) = Some sample_getpid
   \<and> get_running_process sample_kernel = Some 1
   \<and> syscall_handler (sys_handlers sample_impl) (sample_regs 3) sample_kernel =
       ([EvGetRunning, EvStoreRegs 1, EvSyscalling 1 True, EvSTI,
         EvInvoke 3 1 (sample_regs 3)
           (sample_kernel\<lparr>procs := (procs sample_kernel)(1 := sample_process
                \<lparr>regs_state := sample_regs 3, syscalling := True\<rparr>),
              interrupts := True\<rparr>),
         EvSyscalling 1 False],
        Returned (1, sample_kernel\<lparr>procs := (procs sample_kernel)(1 := sample_process
                \<lparr>regs_state := sample_regs 3, syscalling := False\<rparr>),
              interrupts := True\<rparr>))"
proof -
  have a: "unat (eax (sample_regs 3)) < SYSCALLS_COUNT (sys_handlers sample_impl)"
    by (simp add: sample_regs_def SYSCALLS_COUNT_def sys_handlers_def)
  have b: "sys_handlers sample_impl ! unat (eax (sample_regs 3)) = Some sample_getpid"
    by (simp add: sample_regs_def sys_handlers_def sample_impl_def)
  have c: "get_running_process sample_kernel = Some 1"
    by (simp add: get_running_process_def sample_kernel_def)
  show ?thesis
    using a b c syscall_handler_valid [OF a b c]
    by (simp add: sample_getpid_def)
      (simp add: sample_regs_def sample_kernel_def sample_process_def)
qed

section \<open>The syscall dispatcher: the \<^verbatim>\<open>syscalling\<close> flag\<close>





section \<open>The syscall dispatcher: no running process\<close>

text \<open>
  C8. When the number in \<^verbatim>\<open>eax\<close> selects a handler, \<^verbatim>\<open>syscall_handler\<close>
  stores through the result of \<^verbatim>\<open>get_running_process()\<close> without testing it. If
  that result is \<^verbatim>\<open>NULL\<close>, the store is a fault and nothing else happens; if it is
  a descriptor, the store into it is the first effect after the call. So a handler is
  invoked exactly when a running process exists.
\<close>

theorem syscall_handler_null_process:
  assumes "unat (eax registers) < SYSCALLS_COUNT tbl"
    and "tbl ! unat (eax registers) = Some h"
  shows "(get_running_process s = None \<longrightarrow>
            syscall_handler tbl registers s = ([EvGetRunning], Fault NullPointer))
       \<and> (\<forall>process. get_running_process s = Some process \<longrightarrow>
            take 2 (fst (syscall_handler tbl registers s)) =
              [EvGetRunning, EvStoreRegs process])
       \<and> ((\<exists>i p r k. EvInvoke i p r k \<in> set (fst (syscall_handler tbl registers s))) \<longleftrightarrow>
            get_running_process s \<noteq> None)"
proof -
  have l: "lookup_handler tbl (unat (eax registers)) = Some h"
    using assms by (simp add: lookup_handler_def)
  show ?thesis
  proof (cases "get_running_process s")
    case None
    then show ?thesis by (simp add: syscall_handler_null [OF l])
  next
    case (Some process)
    then show ?thesis
      by (cases "h process registers
            (STI (store_syscalling process True (store_regs_state process registers s)))")
         (auto simp: syscall_handler_Some [OF l Some])
  qed
qed

theorem syscall_handler_null_process_witness:
  "unat (eax (sample_regs 3)) < SYSCALLS_COUNT (sys_handlers sample_impl)
   \<and> sys_handlers sample_impl ! unat (eax (sample_regs 3)) = Some sample_getpid
   \<and> get_running_process (sample_kernel\<lparr>running := None\<rparr>) = None
   \<and> syscall_handler (sys_handlers sample_impl) (sample_regs 3)
        (sample_kernel\<lparr>running := None\<rparr>) = ([EvGetRunning], Fault NullPointer)"
proof -
  have a: "unat (eax (sample_regs 3)) < SYSCALLS_COUNT (sys_handlers sample_impl)"
    by (simp add: sample_regs_def SYSCALLS_COUNT_def sys_handlers_def)
  have b: "sys_handlers sample_impl ! unat (eax (sample_regs 3)) = Some sample_getpid"
    by (simp add: sample_regs_def sys_handlers_def sample_impl_def)
  have c: "get_running_process (sample_kernel\<lparr>running := None\<rparr>) = None"
    by (simp add: get_running_process_def)
  show ?thesis
    using a b c syscall_handler_null_process [OF a b, of "sample_kernel\<lparr>running := None\<rparr>"]
    by blast
qed

section \<open>The syscall table\<close>

lemma lookup_sys_handlers:
  "lookup_handler (sys_handlers impl) i = None \<longleftrightarrow> 5 \<le> i"
proof -
  have "i < 5 \<Longrightarrow> i = 0 \<or> i = 1 \<or> i = 2 \<or> i = 3 \<or> i = 4"
    by arith
  then show ?thesis
    by (auto simp: lookup_handler_def SYSCALLS_COUNT_def sys_handlers_def)
qed

text \<open>
  C9. The table has five slots, which hold the handlers of write, fork, exit, getpid
  and waitpid at the numbers 0 to 4, and no slot in range is null: the null-handler
  half of the lookup never decides. The lookup fails exactly for the numbers from 5
  on, and \<^verbatim>\<open>syscall_handler\<close> takes its error return (the value \<^verbatim>\<open>-1\<close>, no
  effect, the state as at the entry) exactly for those numbers.
\<close>

theorem sys_handlers_dense:
  "SYSCALLS_COUNT (sys_handlers impl) = 5
   \<and> sys_handlers impl =
       map Some [sys_write impl, sys_fork impl, sys_exit impl, sys_getpid impl,
                 sys_waitpid impl]
   \<and> (\<forall>i < SYSCALLS_COUNT (sys_handlers impl). sys_handlers impl ! i \<noteq> None)
   \<and> (lookup_handler (sys_handlers impl) (unat (eax registers)) = None \<longleftrightarrow>
        5 \<le> unat (eax registers))
   \<and> (syscall_handler (sys_handlers impl) registers s = ([], Returned (- 1, s)) \<longleftrightarrow>
        5 \<le> unat (eax registers))"
proof -
  have c: "SYSCALLS_COUNT (sys_handlers impl) = 5"
    by (simp add: SYSCALLS_COUNT_def sys_handlers_def)
  have m: "sys_handlers impl =
       map Some [sys_write impl, sys_fork impl, sys_exit impl, sys_getpid impl,
                 sys_waitpid impl]"
    by (simp add: sys_handlers_def)
  have h: "\<forall>i < SYSCALLS_COUNT (sys_handlers impl). sys_handlers impl ! i \<noteq> None"
  proof (intro allI impI)
    fix i
    assume "i < SYSCALLS_COUNT (sys_handlers impl)"
    then show "sys_handlers impl ! i \<noteq> None"
      using lookup_sys_handlers [of impl i] by (simp add: lookup_handler_def c)
  qed
  have r: "syscall_handler (sys_handlers impl) registers s = ([], Returned (- 1, s)) \<longleftrightarrow>
        5 \<le> unat (eax registers)"
    using syscall_handler_trace_Nil [of "sys_handlers impl" registers s]
      syscall_handler_None [of "sys_handlers impl" registers s]
    by (auto simp: lookup_sys_handlers)
  show ?thesis
    using c m h r lookup_sys_handlers by blast
qed

theorem sys_handlers_dense_witness:
  "4 < SYSCALLS_COUNT (sys_handlers sample_impl)
   \<and> sys_handlers sample_impl ! 4 \<noteq> None
   \<and> 5 \<le> unat (eax (sample_regs 5))
   \<and> syscall_handler (sys_handlers sample_impl) (sample_regs 5) sample_kernel =
       ([], Returned (- 1, sample_kernel))
   \<and> \<not> 5 \<le> unat (eax (sample_regs 4))
   \<and> syscall_handler (sys_handlers sample_impl) (sample_regs 4) sample_kernel \<noteq>
       ([], Returned (- 1, sample_kernel))"
proof -
  note d5 = sys_handlers_dense [of sample_impl "sample_regs 5" sample_kernel]
  note d4 = sys_handlers_dense [of sample_impl "sample_regs 4" sample_kernel]
  have a: "5 \<le> unat (eax (sample_regs 5))" "\<not> 5 \<le> unat (eax (sample_regs 4))"
    by (simp_all add: sample_regs_def)
  have c: "4 < SYSCALLS_COUNT (sys_handlers sample_impl)"
    using d5 [THEN conjunct1] by simp
  have h: "sys_handlers sample_impl ! 4 \<noteq> None"
    using d5 [THEN conjunct2, THEN conjunct2, THEN conjunct1] c by blast
  have r5: "syscall_handler (sys_handlers sample_impl) (sample_regs 5) sample_kernel =
       ([], Returned (- 1, sample_kernel))"
    using d5 [THEN conjunct2, THEN conjunct2, THEN conjunct2, THEN conjunct2] a(1) by blast
  have r4: "syscall_handler (sys_handlers sample_impl) (sample_regs 4) sample_kernel \<noteq>
       ([], Returned (- 1, sample_kernel))"
    using d4 [THEN conjunct2, THEN conjunct2, THEN conjunct2, THEN conjunct2] a(2) by blast
  show ?thesis
    using a c h r5 r4 by blast
qed

section \<open>The spinlock\<close>

text \<open>
  C5, as stated, fails when interrupts are masked before the acquisition: in the sample
  kernel they are masked, and after \<^verbatim>\<open>lock\<close> and \<^verbatim>\<open>unlock\<close> they are enabled.
\<close>

theorem lock_unlock_counterexample:
  "interrupts (unlock 0 (lock 0 sample_kernel)) \<noteq> interrupts sample_kernel"
  by (simp add: lock_def unlock_def CLI_def STI_def sample_kernel_def)

text \<open>
  C5, amended. \<^verbatim>\<open>lock\<close> masks interrupts and \<^verbatim>\<open>unlock\<close> enables them whatever
  they were before: after an acquisition and one release interrupts are enabled, so the
  interrupt-enable state is the one before the acquisition exactly when interrupts were
  enabled then. Nothing else of the kernel state changes.
\<close>

theorem lock_unlock_enables:
  "interrupts (lock spinlock s) = False
   \<and> interrupts (unlock spinlock (lock spinlock s)) = True
   \<and> (interrupts (unlock spinlock (lock spinlock s)) = interrupts s \<longleftrightarrow> interrupts s)
   \<and> procs (unlock spinlock (lock spinlock s)) = procs s
   \<and> running (unlock spinlock (lock spinlock s)) = running s"
  by (simp add: lock_def unlock_def CLI_def STI_def)

theorem lock_unlock_enables_witness:
  "interrupts (sample_kernel\<lparr>interrupts := True\<rparr>)
   \<and> interrupts (unlock 0 (lock 0 (sample_kernel\<lparr>interrupts := True\<rparr>))) =
       interrupts (sample_kernel\<lparr>interrupts := True\<rparr>)
   \<and> \<not> interrupts (lock 0 (sample_kernel\<lparr>interrupts := True\<rparr>))"
  using lock_unlock_enables [of 0 "sample_kernel\<lparr>interrupts := True\<rparr>"] by simp

section \<open>The trap entry stubs: what each macro call is\<close>

lemma error_stubs_map:
  "error_stubs = map (\<lambda>v. if v \<in> hw_code_vectors then ERROR_CODE v else ERROR v) [0..<32]"
  by (simp add: error_stubs_def hw_code_vectors_def upt_rec)

lemma irq_stubs_map: "irq_stubs = map IRQ [0..<16]"
  by (simp add: irq_stubs_def upt_rec)

lemma error_stubs_nth:
  "v < 32 \<Longrightarrow> error_stubs ! v = (if v \<in> hw_code_vectors then ERROR_CODE v else ERROR v)"
  by (simp only: error_stubs_map) simp

lemma irq_stubs_nth: "i < 16 \<Longrightarrow> irq_stubs ! i = IRQ i"
  by (simp only: irq_stubs_map) simp

lemma in_error_stubs:
  "b \<in> set error_stubs \<longleftrightarrow>
     (\<exists>v<32. b = (if v \<in> hw_code_vectors then ERROR_CODE v else ERROR v))"
  unfolding error_stubs_map by auto

lemma in_irq_stubs: "b \<in> set irq_stubs \<longleftrightarrow> (\<exists>i<16. b = IRQ i)"
  by (auto simp: irq_stubs_map)

subsection \<open>The frame each stub builds\<close>

lemma frame_at_ERROR:
  "frame_at (length saved) (snd (stub_entry saved (ERROR v) st)) =
     Some \<lparr>frame_regs = saved, frame_int = of_nat v, frame_code = 0, frame_cpu = st\<rparr>"
  by (simp add: frame_at_def STORE_REGS_def push_def nth_append)

lemma frame_at_ERROR_CODE:
  "frame_at (length saved) (snd (stub_entry saved (ERROR_CODE v) (hw_code # st))) =
     Some \<lparr>frame_regs = saved, frame_int = of_nat v, frame_code = hw_code, frame_cpu = st\<rparr>"
  by (simp add: frame_at_def STORE_REGS_def push_def nth_append)

lemma frame_at_IRQ:
  "frame_at (length saved) (snd (stub_entry saved (IRQ i) st)) =
     Some \<lparr>frame_regs = saved, frame_int = 0x20 + of_nat i, frame_code = 0, frame_cpu = st\<rparr>"
  by (simp add: frame_at_def STORE_REGS_def push_def nth_append)

lemma frame_at_SYSCALL:
  "frame_at (length saved) (snd (stub_entry saved SYSCALL st)) =
     Some \<lparr>frame_regs = saved, frame_int = 0, frame_code = 0, frame_cpu = st\<rparr>"
  by (simp add: frame_at_def STORE_REGS_def push_def nth_append)

lemma frame_int_of_stub:
  assumes "frame_at (length saved) (snd (stub_entry saved b st)) = Some f"
  shows "frame_int f =
     (case b of ERROR v \<Rightarrow> of_nat v | ERROR_CODE v \<Rightarrow> of_nat v
      | IRQ i \<Rightarrow> 0x20 + of_nat i | SYSCALL \<Rightarrow> 0)"
  using assms
  by (cases b) (auto simp: frame_at_def STORE_REGS_def push_def nth_append split: if_splits)

lemma unat_irq_vector: "i < 16 \<Longrightarrow> unat (0x20 + of_nat i :: u32) = 32 + i"
  by (simp add: unat_word_ariths unat_of_nat)

lemma unat_error_vector: "v < 32 \<Longrightarrow> unat (of_nat v :: u32) = v"
  by (simp add: unat_of_nat)

section \<open>The error-code slot\<close>

text \<open>
  C3. For each exception vector among 8, 10, 11, 12, 13, 14, 17 and 30 the stub is an
  \<^verbatim>\<open>ERROR_CODE\<close> one: it pushes the vector only, so the error-code field of the
  frame is the word that was on top of the stack when the stub started, the one the
  CPU pushed. For every other exception vector the stub is an \<^verbatim>\<open>ERROR\<close> one, which
  pushes 0 and then the vector; every IRQ stub and the syscall stub push 0 first as
  well; the error-code field of their frames is 0.
\<close>

theorem error_code_discipline:
  "(\<forall>v<32. v \<in> hw_code_vectors \<longrightarrow>
      error_stubs ! v = ERROR_CODE v
      \<and> snd (stub_entry saved (error_stubs ! v) (hw_code # st)) =
          saved @ [of_nat v, hw_code] @ st
      \<and> frame_at (length saved) (snd (stub_entry saved (error_stubs ! v) (hw_code # st))) =
          Some \<lparr>frame_regs = saved, frame_int = of_nat v, frame_code = hw_code,
                 frame_cpu = st\<rparr>)
   \<and> (\<forall>v<32. v \<notin> hw_code_vectors \<longrightarrow>
      error_stubs ! v = ERROR v
      \<and> snd (stub_entry saved (error_stubs ! v) st) = saved @ [of_nat v, 0] @ st
      \<and> frame_at (length saved) (snd (stub_entry saved (error_stubs ! v) st)) =
          Some \<lparr>frame_regs = saved, frame_int = of_nat v, frame_code = 0, frame_cpu = st\<rparr>)
   \<and> (\<forall>i<16.
      irq_stubs ! i = IRQ i
      \<and> snd (stub_entry saved (irq_stubs ! i) st) = saved @ [0x20 + of_nat i, 0] @ st
      \<and> frame_at (length saved) (snd (stub_entry saved (irq_stubs ! i) st)) =
          Some \<lparr>frame_regs = saved, frame_int = 0x20 + of_nat i, frame_code = 0,
                 frame_cpu = st\<rparr>)
   \<and> snd (stub_entry saved SYSCALL st) = saved @ [0, 0] @ st
   \<and> frame_at (length saved) (snd (stub_entry saved SYSCALL st)) =
          Some \<lparr>frame_regs = saved, frame_int = 0, frame_code = 0, frame_cpu = st\<rparr>"
proof -
  have a: "\<forall>v<32. v \<in> hw_code_vectors \<longrightarrow>
      error_stubs ! v = ERROR_CODE v
      \<and> snd (stub_entry saved (error_stubs ! v) (hw_code # st)) =
          saved @ [of_nat v, hw_code] @ st
      \<and> frame_at (length saved) (snd (stub_entry saved (error_stubs ! v) (hw_code # st))) =
          Some \<lparr>frame_regs = saved, frame_int = of_nat v, frame_code = hw_code,
                 frame_cpu = st\<rparr>"
    using frame_at_ERROR_CODE [of saved _ hw_code st]
    by (simp add: error_stubs_nth STORE_REGS_def push_def)
  have b: "\<forall>v<32. v \<notin> hw_code_vectors \<longrightarrow>
      error_stubs ! v = ERROR v
      \<and> snd (stub_entry saved (error_stubs ! v) st) = saved @ [of_nat v, 0] @ st
      \<and> frame_at (length saved) (snd (stub_entry saved (error_stubs ! v) st)) =
          Some \<lparr>frame_regs = saved, frame_int = of_nat v, frame_code = 0, frame_cpu = st\<rparr>"
    using frame_at_ERROR [of saved _ st]
    by (simp add: error_stubs_nth STORE_REGS_def push_def)
  have c: "\<forall>i<16.
      irq_stubs ! i = IRQ i
      \<and> snd (stub_entry saved (irq_stubs ! i) st) = saved @ [0x20 + of_nat i, 0] @ st
      \<and> frame_at (length saved) (snd (stub_entry saved (irq_stubs ! i) st)) =
          Some \<lparr>frame_regs = saved, frame_int = 0x20 + of_nat i, frame_code = 0,
                 frame_cpu = st\<rparr>"
    using frame_at_IRQ [of saved _ st]
    by (simp add: irq_stubs_nth STORE_REGS_def push_def)
  have d: "snd (stub_entry saved SYSCALL st) = saved @ [0, 0] @ st"
    by (simp add: STORE_REGS_def push_def)
  show ?thesis
    using a b c d frame_at_SYSCALL [of saved st] by blast
qed

theorem error_code_discipline_witness:
  "(14 :: nat) < 32 \<and> 14 \<in> hw_code_vectors
   \<and> frame_at (length [7, 9 :: u32])
        (snd (stub_entry [7, 9] (error_stubs ! 14) (5 # [1, 2, 3]))) =
       Some \<lparr>frame_regs = [7, 9], frame_int = 14, frame_code = 5, frame_cpu = [1, 2, 3]\<rparr>
   \<and> (3 :: nat) < 32 \<and> 3 \<notin> hw_code_vectors
   \<and> frame_at (length [7, 9 :: u32]) (snd (stub_entry [7, 9] (error_stubs ! 3) [1, 2, 3])) =
       Some \<lparr>frame_regs = [7, 9], frame_int = 3, frame_code = 0, frame_cpu = [1, 2, 3]\<rparr>"
proof -
  note d = error_code_discipline [where saved = "[7, 9]" and hw_code = 5 and st = "[1, 2, 3]"]
  have a: "(14 :: nat) < 32 \<and> 14 \<in> hw_code_vectors"
    by (simp add: hw_code_vectors_def)
  have b: "(3 :: nat) < 32 \<and> 3 \<notin> hw_code_vectors"
    by (simp add: hw_code_vectors_def)
  have "frame_at (length [7, 9 :: u32])
        (snd (stub_entry [7, 9] (error_stubs ! 14) (5 # [1, 2, 3]))) =
       Some \<lparr>frame_regs = [7, 9], frame_int = of_nat 14, frame_code = 5,
              frame_cpu = [1, 2, 3]\<rparr>"
    using d a by blast
  moreover have "frame_at (length [7, 9 :: u32])
        (snd (stub_entry [7, 9] (error_stubs ! 3) [1, 2, 3])) =
       Some \<lparr>frame_regs = [7, 9], frame_int = of_nat 3, frame_code = 0,
              frame_cpu = [1, 2, 3]\<rparr>"
    using d b by blast
  ultimately show ?thesis
    using a b by simp
qed

section \<open>The vector slot of a syscall frame\<close>

text \<open>
  C4, as stated, fails: the syscall stub pushes 0 as the interrupt ID, which is the
  number of exception 0. On an empty stack and with no saved registers, the frame of
  the syscall stub and the frame of the stub of exception 0 are the same frame.
\<close>

theorem syscall_vector_counterexample:
  "frame_at 0 (snd (stub_entry [] SYSCALL [])) =
     Some \<lparr>frame_regs = [], frame_int = 0, frame_code = 0, frame_cpu = []\<rparr>
   \<and> frame_at 0 (snd (stub_entry [] (error_stubs ! 0) [])) =
     frame_at 0 (snd (stub_entry [] SYSCALL []))"
  by (simp add: error_stubs_def frame_at_def STORE_REGS_def push_def)

text \<open>
  C4, amended. The syscall stub records no vector of its own: the interrupt ID of its
  frame is the placeholder 0, as in the frame of exception 0. What tells a syscall
  trap from every exception and IRQ is the function the stub calls: the syscall stub
  passes its frame to \<^verbatim>\<open>syscall_handler\<close>, every exception and IRQ stub to
  \<^verbatim>\<open>interrupt_handler\<close>.
\<close>

theorem syscall_frame_target:
  "frame_at (length saved) (snd (stub_entry saved SYSCALL st)) =
     Some \<lparr>frame_regs = saved, frame_int = 0, frame_code = 0, frame_cpu = st\<rparr>
   \<and> frame_at (length saved) (snd (stub_entry saved (error_stubs ! 0) st)) =
     Some \<lparr>frame_regs = saved, frame_int = 0, frame_code = 0, frame_cpu = st\<rparr>
   \<and> fst (stub_entry saved SYSCALL st) = Call_syscall_handler
   \<and> (\<forall>b \<in> set error_stubs \<union> set irq_stubs.
        fst (stub_entry saved b st) = Call_interrupt_handler)"
proof -
  have "\<forall>b \<in> set error_stubs \<union> set irq_stubs.
        fst (stub_entry saved b st) = Call_interrupt_handler"
    by (auto simp: in_error_stubs in_irq_stubs)
  moreover have "error_stubs ! 0 = ERROR 0"
    by (simp add: error_stubs_def)
  ultimately show ?thesis
    using frame_at_SYSCALL [of saved st] frame_at_ERROR [of saved 0 st] by simp
qed

theorem syscall_frame_target_witness:
  "IRQ 3 \<in> set error_stubs \<union> set irq_stubs
   \<and> fst (stub_entry [7, 9] (IRQ 3) [1, 2, 3]) = Call_interrupt_handler
   \<and> fst (stub_entry [7, 9] SYSCALL [1, 2, 3]) = Call_syscall_handler"
proof -
  have a: "IRQ 3 \<in> set error_stubs \<union> set irq_stubs"
    by (simp add: irq_stubs_def)
  show ?thesis
    using a syscall_frame_target [where saved = "[7, 9]" and st = "[1, 2, 3]"] by blast
qed

section \<open>The vectors of the IRQ stubs\<close>

text \<open>
  C7. There are 32 exception stubs and 16 IRQ stubs. The stub of IRQ line \<open>i\<close>
  records the vector \<open>32 + i\<close> in its frame, so the IRQ vectors are 32 to 47. For a
  frame built by an exception or IRQ stub, the comparison of its vector with 32 tells
  the class: the stub is an exception stub exactly when the vector is below 32, and an
  IRQ stub exactly when the vector is from 32 to 47.
\<close>

theorem irq_vector_range:
  "length error_stubs = 32 \<and> length irq_stubs = 16
   \<and> (\<forall>i<16.
        irq_stubs ! i = IRQ i
        \<and> frame_at (length saved) (snd (stub_entry saved (irq_stubs ! i) st)) =
            Some \<lparr>frame_regs = saved, frame_int = 0x20 + of_nat i, frame_code = 0,
                   frame_cpu = st\<rparr>
        \<and> unat (0x20 + of_nat i :: u32) = 32 + i)
   \<and> (\<forall>b f. b \<in> set error_stubs \<union> set irq_stubs \<longrightarrow>
        frame_at (length saved) (snd (stub_entry saved b st)) = Some f \<longrightarrow>
          (b \<in> set error_stubs \<longleftrightarrow> unat (frame_int f) < 32)
          \<and> (b \<in> set irq_stubs \<longleftrightarrow> 32 \<le> unat (frame_int f) \<and> unat (frame_int f) \<le> 47))"
proof -
  have l: "length error_stubs = 32 \<and> length irq_stubs = 16"
    by (simp add: error_stubs_def irq_stubs_def)
  have i: "\<forall>i<16.
        irq_stubs ! i = IRQ i
        \<and> frame_at (length saved) (snd (stub_entry saved (irq_stubs ! i) st)) =
            Some \<lparr>frame_regs = saved, frame_int = 0x20 + of_nat i, frame_code = 0,
                   frame_cpu = st\<rparr>
        \<and> unat (0x20 + of_nat i :: u32) = 32 + i"
    using frame_at_IRQ [of saved _ st] by (simp add: irq_stubs_nth unat_irq_vector)
  have c: "(b \<in> set error_stubs \<longleftrightarrow> unat (frame_int f) < 32)
          \<and> (b \<in> set irq_stubs \<longleftrightarrow> 32 \<le> unat (frame_int f) \<and> unat (frame_int f) \<le> 47)"
    if b: "b \<in> set error_stubs \<union> set irq_stubs"
      and f: "frame_at (length saved) (snd (stub_entry saved b st)) = Some f" for b f
  proof -
    consider (err) v where "v < 32" "b = ERROR v \<or> b = ERROR_CODE v"
      | (irq) i where "i < 16" "b = IRQ i"
      using b by (auto simp: in_error_stubs in_irq_stubs split: if_splits)
    then show ?thesis
    proof cases
      case err
      then have "unat (frame_int f) = v"
        using frame_int_of_stub [OF f] by (auto simp: unat_error_vector)
      moreover have "b \<in> set error_stubs" "b \<notin> set irq_stubs"
        using b err by (auto simp: in_irq_stubs)
      ultimately show ?thesis
        using err by simp
    next
      case irq
      then have "unat (frame_int f) = 32 + i"
        using frame_int_of_stub [OF f] by (simp add: unat_irq_vector)
      moreover have "b \<in> set irq_stubs" "b \<notin> set error_stubs"
        using irq by (auto simp: in_irq_stubs in_error_stubs)
      ultimately show ?thesis
        using irq by simp
    qed
  qed
  show ?thesis
    using l i c by blast
qed

theorem irq_vector_range_witness:
  "(15 :: nat) < 16
   \<and> frame_at (length [7, 9 :: u32]) (snd (stub_entry [7, 9] (irq_stubs ! 15) [1, 2, 3])) =
       Some \<lparr>frame_regs = [7, 9], frame_int = 47, frame_code = 0, frame_cpu = [1, 2, 3]\<rparr>
   \<and> ERROR_CODE 8 \<in> set error_stubs \<union> set irq_stubs
   \<and> frame_at (length [7, 9 :: u32]) (snd (stub_entry [7, 9] (ERROR_CODE 8) [1, 2, 3])) =
       Some \<lparr>frame_regs = [7, 9], frame_int = 8, frame_code = 1, frame_cpu = [2, 3]\<rparr>
   \<and> ERROR_CODE 8 \<in> set error_stubs
   \<and> unat (frame_int \<lparr>frame_regs = [7, 9], frame_int = 8, frame_code = 1,
                        frame_cpu = [2, 3]\<rparr>) < 32"
proof -
  note d = irq_vector_range [where saved = "[7, 9]" and st = "[1, 2, 3]"]
  have a: "(15 :: nat) < 16"
    by simp
  have i: "frame_at (length [7, 9 :: u32])
        (snd (stub_entry [7, 9] (irq_stubs ! 15) [1, 2, 3])) =
       Some \<lparr>frame_regs = [7, 9], frame_int = 0x20 + of_nat 15, frame_code = 0,
              frame_cpu = [1, 2, 3]\<rparr>"
    using d a by blast
  have b: "ERROR_CODE 8 \<in> set error_stubs \<union> set irq_stubs"
    by (simp add: error_stubs_def)
  have f: "frame_at (length [7, 9 :: u32])
        (snd (stub_entry [7, 9] (ERROR_CODE 8) [1, 2, 3])) =
       Some \<lparr>frame_regs = [7, 9], frame_int = 8, frame_code = 1, frame_cpu = [2, 3]\<rparr>"
    by (simp add: frame_at_def STORE_REGS_def push_def)
  have e: "ERROR_CODE 8 \<in> set error_stubs"
    by (simp add: error_stubs_def)
  have "unat (frame_int \<lparr>frame_regs = [7, 9], frame_int = 8, frame_code = 1,
                        frame_cpu = [2, 3]\<rparr>) < 32"
    using d b f e by blast
  then show ?thesis
    using a i b f e by simp
qed

section \<open>Termination of \<^verbatim>\<open>print_nbr\<close>\<close>

lemma sint_range32: "- 2147483648 \<le> sint (w :: 32 word) \<and> sint w < 2147483648"
  using sint_ge [of w] sint_lt [of w] by simp

lemma sint_minus32:
  "sint (- w :: 32 word) = (if sint w = - 2147483648 then - 2147483648 else - sint w)"
proof -
  have "- w = (word_of_int (- sint w) :: 32 word)"
    by simp
  then have "sint (- w) = (- sint w + 2147483648) mod 4294967296 - 2147483648"
    by (simp only: int_word_sint) simp
  then show ?thesis
    using sint_range32 [of w] by auto
qed

text \<open>The negation overflows at \<^verbatim>\<open>INT_MIN\<close> only, and off it the two evaluations agree.\<close>

lemma neg_overflows_iff: "neg_overflows nbr \<longleftrightarrow> nbr = - 2147483648"
proof
  assume "neg_overflows nbr"
  then have "sint nbr = sint (- 2147483648 :: 32 word)"
    by (simp add: neg_overflows_def)
  then show "nbr = - 2147483648"
    by (rule signed_word_eqI)
next
  assume "nbr = - 2147483648"
  then show "neg_overflows nbr"
    by (simp add: neg_overflows_def)
qed

lemma negated_defined: "\<not> neg_overflows nbr \<Longrightarrow> negated m nbr = - sint nbr"
  by (cases m) (simp_all add: negated_def neg_overflows_def sint_minus32)

lemma abs_negated: "\<bar>negated m nbr\<bar> = \<bar>sint nbr\<bar>"
  by (cases m) (simp_all add: negated_def sint_minus32)

lemma abs_sint_bound: "\<bar>sint (w :: 32 word)\<bar> \<le> 2147483648"
  using sint_range32 [of w] by linarith

lemma magnitude_tenth:
  assumes "\<bar>a\<bar> \<le> 2147483648"
  shows "magnitude (word_of_int (a sdiv 10)) = nat \<bar>a\<bar> div 10"
proof -
  have q: "\<bar>a sdiv 10\<bar> = \<bar>a\<bar> div 10"
    by (simp add: signed_divide_int_def sgn_if abs_mult)
  moreover have "\<bar>a\<bar> div 10 < 2147483648"
    using assms by simp
  ultimately have "sint (word_of_int (a sdiv 10) :: 32 word) = a sdiv 10"
    by (simp add: int_word_sint)
  then show ?thesis
    using q by (simp add: magnitude_def nat_div_distrib)
qed

lemma magnitude_int_div10:
  assumes "10 \<le>s nbr"
  shows "magnitude (int_div nbr 10) = magnitude nbr div 10 \<and> 10 \<le> magnitude nbr"
  using assms magnitude_tenth [OF abs_sint_bound, of nbr]
  by (simp add: int_div_def magnitude_def word_sle_eq)

lemma magnitude_neg_div10:
  assumes "neg_ge10 b nbr"
  shows "magnitude (neg_div10 b nbr) = magnitude nbr div 10 \<and> 10 \<le> magnitude nbr"
proof -
  have "\<bar>negated (div_negation b) nbr\<bar> \<le> 2147483648"
    using abs_sint_bound [of nbr] by (simp add: abs_negated)
  then have "magnitude (neg_div10 b nbr) = magnitude nbr div 10"
    using magnitude_tenth [of "negated (div_negation b) nbr"]
    by (simp add: neg_div10_def magnitude_def abs_negated)
  moreover have "10 \<le> \<bar>negated (test_negation b) nbr\<bar>"
    using assms by (simp add: neg_ge10_def)
  then have "10 \<le> magnitude nbr"
    by (simp add: abs_negated magnitude_def)
  ultimately show ?thesis
    by simp
qed

lemma tenth_less: "10 \<le> n \<Longrightarrow> n div 10 < (n :: nat)"
  by arith

lemma digits_tenth: "10 \<le> n \<Longrightarrow> decimal_digits n = Suc (decimal_digits (n div 10))"
  by (subst decimal_digits.simps) simp

text \<open>A stack as deep as the number has decimal digits is enough, in every build.\<close>

lemma print_nbr_fuel_enough:
  "decimal_digits (magnitude nbr) \<le> fuel \<Longrightarrow>
     print_nbr_fuel b fuel nbr = Some (print_nbr b nbr)"
proof (induction b nbr arbitrary: fuel rule: print_nbr.induct)
  case (1 b nbr)
  have "0 < decimal_digits (magnitude nbr)"
    by (subst decimal_digits.simps) simp
  then obtain k where k: "fuel = Suc k"
    using "1.prems" by (cases fuel) auto
  have x: "print_nbr_fuel b k (int_div nbr 10) = Some (print_nbr b (int_div nbr 10))"
    if "10 \<le>s nbr"
    using that "1.prems" k magnitude_int_div10 [OF that] digits_tenth [of "magnitude nbr"]
    by (intro "1.IH"(1)) simp_all
  have y: "print_nbr_fuel b k (neg_div10 b nbr) = Some (print_nbr b (neg_div10 b nbr))"
    if "neg_ge10 b nbr"
    using that "1.prems" k magnitude_neg_div10 [OF that] digits_tenth [of "magnitude nbr"]
    by (intro "1.IH"(2)) simp_all
  show ?case
    by (subst print_nbr.simps) (simp add: k x y)
qed

text \<open>
  Where C defines the behaviour, that is off \<^verbatim>\<open>INT_MIN\<close>, the output does not depend
  on the build: no nested call is on \<^verbatim>\<open>INT_MIN\<close>.
\<close>

lemma magnitude_overflow: "neg_overflows nbr \<longleftrightarrow> magnitude nbr = 2147483648"
  using sint_range32 [of nbr] by (auto simp: neg_overflows_def magnitude_def)

lemma print_nbr_build_irrelevant:
  "\<not> neg_overflows nbr \<Longrightarrow> print_nbr b nbr = print_nbr b' nbr"
proof (induction b nbr rule: print_nbr.induct)
  case (1 b nbr)
  have t: "neg_ge10 b nbr = neg_ge10 b' nbr"
    using "1.prems" by (simp add: neg_ge10_def negated_defined)
  have d: "neg_div10 b nbr = neg_div10 b' nbr"
    using "1.prems" by (simp add: neg_div10_def negated_defined)
  have r: "last_char b nbr = last_char b' nbr"
    using "1.prems" by (simp add: last_char_def neg_rem10_def negated_defined)
  have m: "magnitude nbr < 2147483648"
    using "1.prems" abs_sint_bound [of nbr] by (simp add: magnitude_overflow magnitude_def)
  have x: "print_nbr b (int_div nbr 10) = print_nbr b' (int_div nbr 10)" if "10 \<le>s nbr"
    using that m magnitude_int_div10 [OF that] tenth_less [of "magnitude nbr"]
    by (intro "1.IH"(1)) (simp_all add: magnitude_overflow)
  have y: "print_nbr b (neg_div10 b nbr) = print_nbr b' (neg_div10 b nbr)" if "neg_ge10 b nbr"
    using that m magnitude_neg_div10 [OF that] tenth_less [of "magnitude nbr"]
    by (intro "1.IH"(2)) (simp_all add: magnitude_overflow)
  show ?case
    by (subst print_nbr.simps, subst (2) print_nbr.simps) (simp add: t [symmetric] d [symmetric] r x y)
qed

text \<open>
  At \<^verbatim>\<open>INT_MIN\<close> the builds differ. With the test and the quotient exact, the call
  nests ten deep, on 214748364, and the output is \<^verbatim>\<open>-214748364(\<close>; with every
  negation wrapped there is no nested call and the output is \<^verbatim>\<open>-(\<close>.
\<close>

lemma print_nbr_fuel_folding:
  "print_nbr_fuel folding_build 9 (- 2147483648) = None
   \<and> print_nbr_fuel folding_build 10 (- 2147483648) =
       Some [0x2D, 0x32, 0x31, 0x34, 0x37, 0x34, 0x38, 0x33, 0x36, 0x34, 0x28]"
  by code_simp

lemma print_nbr_fuel_wrapping:
  "print_nbr_fuel wrapping_build 1 (- 2147483648) = Some [0x2D, 0x28]"
  by code_simp

text \<open>
  C10. \<^verbatim>\<open>print_nbr\<close> returns for every 32-bit \<^verbatim>\<open>int\<close>, in every build. When it
  calls itself on \<^verbatim>\<open>nbr / 10\<close> or on \<^verbatim>\<open>-nbr / 10\<close>, the argument is strictly
  smaller in magnitude than \<^verbatim>\<open>nbr\<close>; and a stack that holds as many nested calls as
  the input has decimal digits, or more, is enough for the run to finish with the
  output of \<^verbatim>\<open>print_nbr\<close>. This includes \<^verbatim>\<open>INT_MIN\<close>, where the negation
  overflows: whichever of the two values each expression is evaluated with, the nested
  call, if there is one, is on a number of magnitude 214748364.
\<close>

theorem print_nbr_terminates:
  "(10 \<le>s nbr \<longrightarrow> magnitude (int_div nbr 10) < magnitude nbr)
   \<and> (neg_ge10 b nbr \<longrightarrow> magnitude (neg_div10 b nbr) < magnitude nbr)
   \<and> (\<forall>fuel \<ge> decimal_digits (magnitude nbr).
        print_nbr_fuel b fuel nbr = Some (print_nbr b nbr))"
  using magnitude_int_div10 [of nbr] magnitude_neg_div10 [of b nbr]
    tenth_less [of "magnitude nbr"] print_nbr_fuel_enough [of nbr _ b]
  by auto

theorem print_nbr_terminates_witness:
  "neg_ge10 folding_build (- 2147483648)
   \<and> magnitude (neg_div10 folding_build (- 2147483648)) < magnitude (- 2147483648)
   \<and> decimal_digits (magnitude (- 2147483648)) \<le> 10
   \<and> print_nbr folding_build (- 2147483648) =
       [0x2D, 0x32, 0x31, 0x34, 0x37, 0x34, 0x38, 0x33, 0x36, 0x34, 0x28]
   \<and> neg_ge10 wrapping_build (- 250)
   \<and> magnitude (neg_div10 wrapping_build (- 250)) < magnitude (- 250)
   \<and> decimal_digits (magnitude (- 250)) \<le> 3
   \<and> print_nbr wrapping_build (- 250) = [0x2D, 0x32, 0x35, 0x30]"
proof -
  note m = print_nbr_terminates [of "- 2147483648" folding_build]
  note n = print_nbr_terminates [of "- 250" wrapping_build]
  have c: "neg_ge10 folding_build (- 2147483648)"
    by (simp add: neg_ge10_def negated_def folding_build_def)
  have d: "decimal_digits (magnitude (- 2147483648)) \<le> 10"
    by (simp add: magnitude_def decimal_digits.simps)
  have f: "print_nbr_fuel folding_build 10 (- 2147483648) =
       Some [0x2D, 0x32, 0x31, 0x34, 0x37, 0x34, 0x38, 0x33, 0x36, 0x34, 0x28]"
    by code_simp
  have "print_nbr_fuel folding_build 10 (- 2147483648) =
       Some (print_nbr folding_build (- 2147483648))"
    using m d by blast
  then have p: "print_nbr folding_build (- 2147483648) =
       [0x2D, 0x32, 0x31, 0x34, 0x37, 0x34, 0x38, 0x33, 0x36, 0x34, 0x28]"
    using f by simp
  have c': "neg_ge10 wrapping_build (- 250)"
    by (simp add: neg_ge10_def negated_def wrapping_build_def)
  have d': "decimal_digits (magnitude (- 250)) \<le> 3"
    by (simp add: magnitude_def decimal_digits.simps)
  have f': "print_nbr_fuel wrapping_build 3 (- 250) = Some [0x2D, 0x32, 0x35, 0x30]"
    by code_simp
  have "print_nbr_fuel wrapping_build 3 (- 250) = Some (print_nbr wrapping_build (- 250))"
    using n d' by blast
  then have p': "print_nbr wrapping_build (- 250) = [0x2D, 0x32, 0x35, 0x30]"
    using f' by simp
  show ?thesis
    using m n c d p c' d' p' by blast
qed

end
